theory Spec2Isabelle
  imports Main "HOL-Library.Sublist"
begin

section \<open>Standard-library functions the script calls\<close>

text \<open>
  The script \<^verbatim>\<open>convert_jupyter_md_pandoc.py\<close> derives two file names from a notebook
  path with \<^verbatim>\<open>os.path.basename\<close>, \<^verbatim>\<open>os.path.dirname\<close>, \<^verbatim>\<open>os.path.join\<close> and
  \<^verbatim>\<open>str.split\<close>, and then runs two external programs with \<^verbatim>\<open>subprocess.run\<close>.
  The notebook path of the script is a POSIX path (\<^verbatim>\<open>/Users/...\<close>), so \<^verbatim>\<open>os.path\<close>
  is modelled as CPython's \<^verbatim>\<open>posixpath\<close>, whose separator is the slash.
  Python strings are modelled as \<^typ>\<open>string\<close>; every string of the script is ASCII.
\<close>

text \<open>\<^verbatim>\<open>s.rfind(c)\<close> for a one-character \<^verbatim>\<open>c\<close>: the highest index of \<^verbatim>\<open>c\<close>, or -1.\<close>

fun rfind :: "char \<Rightarrow> string \<Rightarrow> int" where
  "rfind c [] = - 1"
| "rfind c (x # xs) =
     (let r = rfind c xs in if 0 \<le> r then r + 1 else if x = c then 0 else - 1)"

text \<open>\<^verbatim>\<open>s.rstrip(c)\<close> for a one-character \<^verbatim>\<open>c\<close>.\<close>

definition rstrip :: "char \<Rightarrow> string \<Rightarrow> string" where
  "rstrip c s = rev (dropWhile (\<lambda>x. x = c) (rev s))"

definition startswith :: "char \<Rightarrow> string \<Rightarrow> bool" where
  "startswith c s = (case s of [] \<Rightarrow> False | x # _ \<Rightarrow> x = c)"

definition endswith :: "char \<Rightarrow> string \<Rightarrow> bool" where
  "endswith c s = (s \<noteq> [] \<and> last s = c)"

text \<open>
  \<^verbatim>\<open>posixpath.basename\<close>: \<^verbatim>\<open>i = p.rfind('/') + 1; return p[i:]\<close>.
\<close>

definition basename :: "string \<Rightarrow> string" where
  "basename p = (let i = rfind CHR ''/'' p + 1 in drop (nat i) p)"

text \<open>
  \<^verbatim>\<open>posixpath.dirname\<close>: \<^verbatim>\<open>i = p.rfind('/') + 1; head = p[:i]\<close>, and
  \<^verbatim>\<open>if head and head != '/' * len(head): head = head.rstrip('/')\<close>.
\<close>

definition dirname :: "string \<Rightarrow> string" where
  "dirname p =
     (let i = rfind CHR ''/'' p + 1;
          head = take (nat i) p
      in if head \<noteq> [] \<and> head \<noteq> replicate (length head) CHR ''/''
         then rstrip CHR ''/'' head else head)"

text \<open>
  \<^verbatim>\<open>posixpath.join(a, b)\<close> with one further component: \<^verbatim>\<open>b\<close> replaces the path when
  it starts with a slash, is appended directly when the path is empty or ends with a
  slash, and is appended after a slash otherwise.
\<close>

definition join :: "string \<Rightarrow> string \<Rightarrow> string" where
  "join a b =
     (if startswith CHR ''/'' b then b
      else if a = [] \<or> endswith CHR ''/'' a then a @ b
      else a @ ''/'' @ b)"

text \<open>
  \<^verbatim>\<open>s.split(sep)\<close> for a one-character separator: the pieces between the
  separators, empty pieces kept; the result is never the empty list.
\<close>

fun str_split :: "char \<Rightarrow> string \<Rightarrow> string list" where
  "str_split sep [] = [[]]"
| "str_split sep (c # cs) =
     (if c = sep then [] # str_split sep cs
      else (case str_split sep cs of [] \<Rightarrow> [[c]] | w # ws \<Rightarrow> (c # w) # ws))"

section \<open>The script's constants and derived paths\<close>

definition notebook_path :: string where
  "notebook_path =
     ''/Users/karthik/Desktop/Autoyos/data_analyst_assignment/autoyos_eye_blink_analysis_karthik_dani.ipynb''"

text \<open>
  The three derived values are constants of the script, computed from
  \<^verbatim>\<open>notebook_path\<close>. They are modelled as functions of the notebook path, so that a
  property can be stated for every notebook path the constant may be set to.
  Index 0 of the split is always in range (lemma \<open>str_split_not_Nil\<close> below), so
  \<^verbatim>\<open>[0]\<close> never raises and is \<^const>\<open>hd\<close>.
\<close>

definition base_filename :: "string \<Rightarrow> string" where
  "base_filename nb = hd (str_split CHR ''.'' (basename nb))"

definition markdown_path :: "string \<Rightarrow> string" where
  "markdown_path nb = join (dirname nb) (base_filename nb @ ''.md'')"

definition pdf_output_path :: "string \<Rightarrow> string" where
  "pdf_output_path nb = join (dirname nb) (base_filename nb @ ''.pdf'')"

text \<open>
  The metadata dictionary. A Python dictionary iterates in insertion order, so it is
  an association list in the order of the literal.
\<close>

definition metadata :: "(string \<times> string) list" where
  "metadata =
     [(''title'', ''Autoyos: Eye Blink Data Analysis''),
      (''author'', ''Karthik Dani: 1BM22MD022''),
      (''date'', ''2024-06-26''),
      (''abstract'', ''This study investigates blinking behavior using longitudinal data analysis techniques. By analyzing blink durations, interblink intervals, and blink rates over multiple months, we uncover nuanced patterns and variations. Statistical analysis and visualizations reveal trends in blinking habits, shedding light on potential factors influencing these behaviors. This exploration offers valuable insights into the dynamics of blinking patterns.''),
      (''subtitle'', ''Statistically Understanding Blinking Behavior across April, May and June''),
      (''keywords'', ''Data analysis''),
      (''thanks'', ''*''),
      (''email'', ''karthikdani14@gmail.com''),
      (''institute'', ''BMS College of Engineering, Bangalore'')]"

section \<open>The two command lines\<close>

text \<open>
  The argument vector of the first \<^verbatim>\<open>subprocess.run\<close>. The sixth argument holds one
  double-quote character (code 0x22) that is never closed.
\<close>

definition nbconvert_command :: "string \<Rightarrow> string list" where
  "nbconvert_command nb =
     [''jupyter'', ''nbconvert'', ''--to'', ''markdown'',
      ''--TagRemovePreprocessor.enabled=True'',
      ''--TagRemovePreprocessor.remove_cell_tags='' @ [CHR 0x22] @ ''exclude-output'',
      nb]"

text \<open>
  The loop \<^verbatim>\<open>for key, value in metadata.items(): pandoc_command.append(...)\<close>, with
  the list passed along; the f-string inserts both strings as they are.
\<close>

fun append_metadata :: "(string \<times> string) list \<Rightarrow> string list \<Rightarrow> string list" where
  "append_metadata [] cmd = cmd"
| "append_metadata ((key, val) # items) cmd =
     append_metadata items (cmd @ [''--metadata='' @ key @ ''='' @ val])"

definition pandoc_command :: "string \<Rightarrow> string list" where
  "pandoc_command nb =
     append_metadata metadata [''pandoc'', markdown_path nb, ''-o'', pdf_output_path nb]"

section \<open>Running the script\<close>

text \<open>
  What the operating system answers to one \<^verbatim>\<open>subprocess.run(cmd, check=True)\<close>:
  the child ran and returned an exit status (negative when a signal killed it), or no
  child could be started (the executable is not on the search path, for instance), in
  which case \<^verbatim>\<open>subprocess.run\<close> raises an \<^verbatim>\<open>OSError\<close>.
\<close>

datatype proc_result = Returned int | Failed_to_start

type_synonym os = "string list \<Rightarrow> proc_result"

datatype exn = CalledProcessError int "string list" | OSError

text \<open>
  What an observer sees of one run of the script, in order: a call of
  \<^verbatim>\<open>subprocess.run\<close>, the exit of the child it waited for, a printed line.
\<close>

datatype event =
    Run_called "string list"
  | Process_exited "string list" int
  | Printed string

text \<open>How the interpreter ends: the end of the file, \<^verbatim>\<open>exit(n)\<close>, or a traceback.\<close>

datatype finish = Fell_through | SystemExit int | Uncaught exn

text \<open>The exit status of the interpreter process for each of them.\<close>

fun exit_code :: "finish \<Rightarrow> int" where
  "exit_code Fell_through = 0"
| "exit_code (SystemExit n) = n"
| "exit_code (Uncaught e) = 1"

text \<open>
  \<^verbatim>\<open>subprocess.run(cmd, check=True)\<close> starts the child, blocks until it has exited,
  and raises \<^verbatim>\<open>CalledProcessError\<close> when the exit status is not zero.
\<close>

definition subprocess_run :: "os \<Rightarrow> string list \<Rightarrow> event list \<times> (exn + unit)" where
  "subprocess_run sys cmd =
     (case sys cmd of
        Failed_to_start \<Rightarrow> ([Run_called cmd], Inl OSError)
      | Returned rc \<Rightarrow>
          ([Run_called cmd, Process_exited cmd rc],
           if rc \<noteq> 0 then Inl (CalledProcessError rc cmd) else Inr ()))"

text \<open>
  The script, top to bottom. \<open>str_of\<close> is \<^verbatim>\<open>str(e)\<close> of the standard library, the
  text an exception is printed as; it is a parameter. Each \<^verbatim>\<open>except\<close> clause names
  \<^verbatim>\<open>subprocess.CalledProcessError\<close> only, so any other exception leaves the
  \<^verbatim>\<open>try\<close> statement uncaught.
\<close>

definition script :: "(exn \<Rightarrow> string) \<Rightarrow> os \<Rightarrow> string \<Rightarrow> event list \<times> finish" where
  "script str_of sys nb =
     (case subprocess_run sys (nbconvert_command nb) of
        (t1, Inl (CalledProcessError rc cmd)) \<Rightarrow>
          (t1 @ [Printed (''Error during Markdown conversion: '' @
                          str_of (CalledProcessError rc cmd))],
           SystemExit 1)
      | (t1, Inl OSError) \<Rightarrow> (t1, Uncaught OSError)
      | (t1, Inr u) \<Rightarrow>
          (let t2 = t1 @ [Printed (''Converted notebook to Markdown: '' @ markdown_path nb)]
           in case subprocess_run sys (pandoc_command nb) of
                (t3, Inl (CalledProcessError rc cmd)) \<Rightarrow>
                  (t2 @ t3 @ [Printed (''Error during PDF conversion: '' @
                                       str_of (CalledProcessError rc cmd))],
                   Fell_through)
              | (t3, Inl OSError) \<Rightarrow> (t2 @ t3, Uncaught OSError)
              | (t3, Inr u) \<Rightarrow>
                  (t2 @ t3 @ [Printed (''Successfully converted Markdown to PDF: '' @
                                       pdf_output_path nb)],
                   Fell_through)))"

text \<open>The argument vectors of the calls of \<^verbatim>\<open>subprocess.run\<close> in a trace, in order.\<close>

fun calls :: "event list \<Rightarrow> string list list" where
  "calls [] = []"
| "calls (Run_called cmd # es) = cmd # calls es"
| "calls (e # es) = calls es"

text \<open>
  The reading of the specification's ``base filename'': the file name with its final
  extension stripped, that is, cut at its last dot when it has one.
\<close>

definition spec_strip_extension :: "string \<Rightarrow> string" where
  "spec_strip_extension f =
     (if CHR ''.'' \<in> set f
      then rev (tl (dropWhile (\<lambda>c. c \<noteq> CHR ''.'') (rev f)))
      else f)"

section \<open>Auxiliary notions for the proofs\<close>

text \<open>
  What \<^const>\<open>dirname\<close> returns: the empty string, a string that does not end with a
  slash, or a string of slashes only.
\<close>

definition dirlike :: "string \<Rightarrow> bool" where
  "dirlike d = (d = [] \<or> last d \<noteq> CHR ''/'' \<or> d = replicate (length d) CHR ''/'')"

text \<open>
  An operating system in which everything succeeds but \<^verbatim>\<open>pandoc\<close>, which returns 43.
\<close>

definition pandoc_fails :: os where
  "pandoc_fails cmd = (if hd cmd = ''pandoc'' then Returned 43 else Returned 0)"

text \<open>An operating system in which no program can be started.\<close>

definition nothing_starts :: os where
  "nothing_starts cmd = Failed_to_start"

text \<open>An operating system without \<^verbatim>\<open>pandoc\<close>; everything else succeeds.\<close>

definition pandoc_missing :: os where
  "pandoc_missing cmd = (if hd cmd = ''pandoc'' then Failed_to_start else Returned 0)"

text \<open>An operating system in which every program succeeds.\<close>

definition all_succeed :: os where
  "all_succeed cmd = Returned 0"

section \<open>Properties of the library functions\<close>

lemma str_split_not_Nil: "str_split sep s \<noteq> []"
  by (induction s) (auto split: list.splits)

lemma hd_str_split: "hd (str_split sep s) = takeWhile (\<lambda>c. c \<noteq> sep) s"
  by (induction s) (auto split: list.splits simp: str_split_not_Nil)

lemma rfind_absent: "c \<notin> set s \<Longrightarrow> rfind c s = - 1"
  by (induction s) (auto simp: Let_def)

lemma rfind_last: "c \<notin> set f \<Longrightarrow> rfind c (d @ c # f) = int (length d)"
  by (induction d) (auto simp: Let_def rfind_absent)

lemma nat_int_succ: "nat (int n + 1) = Suc n"
  by simp

lemma path_cases:
  obtains (plain) "CHR ''/'' \<notin> set p"
  | (slash) d f where "p = d @ CHR ''/'' # f" "CHR ''/'' \<notin> set f"
  using split_list_last by fastforce

lemma basename_plain: "CHR ''/'' \<notin> set p \<Longrightarrow> basename p = p"
  by (simp add: basename_def rfind_absent)

lemma basename_slash: "CHR ''/'' \<notin> set f \<Longrightarrow> basename (d @ CHR ''/'' # f) = f"
  by (simp add: basename_def rfind_last nat_int_succ del: of_nat_Suc)

lemma basename_no_slash: "CHR ''/'' \<notin> set (basename p)"
  by (cases p rule: path_cases) (auto simp: basename_plain basename_slash)

lemma rstrip_last: "rstrip c s \<noteq> [] \<Longrightarrow> last (rstrip c s) \<noteq> c"
  unfolding rstrip_def
  by (metis (mono_tags, lifting) hd_dropWhile last_rev rev_is_Nil_conv)

lemma dirname_plain: "CHR ''/'' \<notin> set p \<Longrightarrow> dirname p = []"
  by (simp add: dirname_def rfind_absent)

lemma dirname_slash:
  "CHR ''/'' \<notin> set f \<Longrightarrow> dirname (d @ CHR ''/'' # f) =
     (if d @ ''/'' \<noteq> replicate (Suc (length d)) CHR ''/'' then rstrip CHR ''/'' (d @ ''/'') else d @ ''/'')"
  by (simp add: dirname_def rfind_last Let_def nat_int_succ)

lemma dirlike_dirname: "dirlike (dirname p)"
proof (cases p rule: path_cases)
  case plain
  then show ?thesis by (simp add: dirname_plain dirlike_def)
next
  case (slash d f)
  then show ?thesis
    using rstrip_last [of "CHR ''/''" "d @ ''/''"]
    by (auto simp: dirname_slash dirlike_def)
qed


lemma join_plain:
  "CHR ''/'' \<notin> set x \<Longrightarrow> join d x =
     (if d = [] \<or> last d = CHR ''/'' then d @ x else d @ CHR ''/'' # x)"
  by (cases x) (auto simp: join_def startswith_def endswith_def)

lemma basename_join:
  assumes "CHR ''/'' \<notin> set x"
  shows "basename (join d x) = x"
proof (cases "d = [] \<or> last d = CHR ''/''")
  case True
  show ?thesis
  proof (cases "d = []")
    case True
    with assms show ?thesis by (simp add: join_plain basename_plain)
  next
    case False
    with True have "d = butlast d @ ''/''" by (metis append_butlast_last_id)
    then have "join d x = butlast d @ CHR ''/'' # x"
      using assms True by (metis append.assoc append_Cons append_Nil join_plain)
    then show ?thesis using assms by (simp add: basename_slash)
  qed
next
  case False
  then show ?thesis using assms by (simp add: join_plain basename_slash)
qed

lemma rstrip_snoc: "s \<noteq> [] \<Longrightarrow> last s \<noteq> c \<Longrightarrow> rstrip c (s @ [c]) = s"
  by (cases s rule: rev_cases) (auto simp: rstrip_def)

lemma dirname_join:
  assumes "CHR ''/'' \<notin> set x" and "dirlike d"
  shows "dirname (join d x) = d"
proof (cases "d = []")
  case True
  with assms show ?thesis by (simp add: join_plain dirname_plain)
next
  case ne: False
  show ?thesis
  proof (cases "last d = CHR ''/''")
    case True
    with ne assms(2) have rep: "d = replicate (length d) CHR ''/''" by (auto simp: dirlike_def)
    from ne True have d: "d = butlast d @ ''/''" by (metis append_butlast_last_id)
    then have j: "join d x = butlast d @ CHR ''/'' # x"
      using assms True by (metis append.assoc append_Cons append_Nil join_plain)
    have len: "Suc (length (butlast d)) = length d" using ne by simp
    have "dirname (join d x) = butlast d @ ''/''"
      unfolding j using assms(1) rep d len by (simp add: dirname_slash)
    with d show ?thesis by simp
  next
    case False
    then have j: "join d x = d @ CHR ''/'' # x" using ne assms by (simp add: join_plain)
    have "d @ ''/'' \<noteq> replicate (Suc (length d)) CHR ''/''"
    proof
      assume "d @ ''/'' = replicate (Suc (length d)) CHR ''/''"
      then have "d @ ''/'' = replicate (length d) CHR ''/'' @ ''/''"
        by (simp only: replicate_append_same replicate_Suc)
      then have "d = replicate (length d) CHR ''/''" by simp
      then have "last d = last (replicate (length d) CHR ''/'')" by simp
      with ne have "last d = CHR ''/''" by simp
      with False show False by simp
    qed
    then show ?thesis unfolding j using assms(1) ne False
      by (simp add: dirname_slash rstrip_snoc)
  qed
qed

subsection \<open>The derived paths\<close>

lemmas path_eval =
  markdown_path_def pdf_output_path_def base_filename_def basename_def dirname_def
  join_def rstrip_def startswith_def endswith_def Let_def

lemma base_filename_takeWhile:
  "base_filename nb = takeWhile (\<lambda>c. c \<noteq> CHR ''.'') (basename nb)"
  by (simp add: base_filename_def hd_str_split)

lemma base_filename_no_slash: "CHR ''/'' \<notin> set (base_filename nb)"
  using basename_no_slash [of nb] set_takeWhileD [of "CHR ''/''" _ "basename nb"]
  by (auto simp: base_filename_takeWhile)

lemma basename_markdown_path: "basename (markdown_path nb) = base_filename nb @ ''.md''"
  unfolding markdown_path_def
  by (rule basename_join) (simp add: base_filename_no_slash)

lemma basename_pdf_output_path: "basename (pdf_output_path nb) = base_filename nb @ ''.pdf''"
  unfolding pdf_output_path_def
  by (rule basename_join) (simp add: base_filename_no_slash)

lemma dirname_markdown_path: "dirname (markdown_path nb) = dirname nb"
  unfolding markdown_path_def
  by (rule dirname_join) (simp_all add: base_filename_no_slash dirlike_dirname)

lemma dirname_pdf_output_path: "dirname (pdf_output_path nb) = dirname nb"
  unfolding pdf_output_path_def
  by (rule dirname_join) (simp_all add: base_filename_no_slash dirlike_dirname)

lemma example_paths:
  "markdown_path ''/x/y/notebook.ipynb'' = ''/x/y/notebook.md''"
  "pdf_output_path ''/x/y/notebook.ipynb'' = ''/x/y/notebook.pdf''"
  by (simp_all add: path_eval)

lemma notebook_paths:
  "markdown_path notebook_path =
     ''/Users/karthik/Desktop/Autoyos/data_analyst_assignment/autoyos_eye_blink_analysis_karthik_dani.md''"
  "pdf_output_path notebook_path =
     ''/Users/karthik/Desktop/Autoyos/data_analyst_assignment/autoyos_eye_blink_analysis_karthik_dani.pdf''"
  by (simp_all add: path_eval notebook_path_def)

lemma takeWhile_until: "c \<notin> set a \<Longrightarrow> takeWhile (\<lambda>x. x \<noteq> c) (a @ c # b) = a"
  by (induction a) auto

lemma dropWhile_until: "c \<notin> set a \<Longrightarrow> dropWhile (\<lambda>x. x \<noteq> c) (a @ c # b) = c # b"
  by (induction a) auto

lemma spec_strip_extension_last:
  assumes "CHR ''.'' \<notin> set b"
  shows "spec_strip_extension (a @ CHR ''.'' # b) = a"
proof -
  have "dropWhile (\<lambda>x. x \<noteq> CHR ''.'') (rev b @ CHR ''.'' # rev a) = CHR ''.'' # rev a"
    using assms by (intro dropWhile_until) simp
  then show ?thesis by (simp add: spec_strip_extension_def)
qed

lemma strip_single_dot:
  "(takeWhile (\<lambda>c. c \<noteq> CHR ''.'') f = spec_strip_extension f) = (count_list f CHR ''.'' \<le> 1)"
proof (cases "CHR ''.'' \<in> set f")
  case False
  then show ?thesis
    by (auto simp: spec_strip_extension_def takeWhile_eq_all_conv count_list_0_iff)
next
  case True
  then obtain a b where f: "f = a @ CHR ''.'' # b" and a: "CHR ''.'' \<notin> set a"
    by (meson split_list_first)
  have tw: "takeWhile (\<lambda>c. c \<noteq> CHR ''.'') f = a"
    unfolding f using a by (rule takeWhile_until)
  show ?thesis
  proof (cases "CHR ''.'' \<in> set b")
    case False
    then have "spec_strip_extension f = a"
      unfolding f by (rule spec_strip_extension_last)
    moreover have "count_list f CHR ''.'' = 1"
      using a False by (simp add: f count_list_0_iff)
    ultimately show ?thesis using tw by simp
  next
    case True
    then obtain c d where b: "b = c @ CHR ''.'' # d" and d: "CHR ''.'' \<notin> set d"
      by (meson split_list_last)
    have "f = (a @ CHR ''.'' # c) @ CHR ''.'' # d" by (simp add: f b)
    then have "spec_strip_extension f = a @ CHR ''.'' # c"
      by (simp only: spec_strip_extension_last [OF d])
    then have "takeWhile (\<lambda>c. c \<noteq> CHR ''.'') f \<noteq> spec_strip_extension f"
      using tw by simp
    moreover have "count_list f CHR ''.'' \<ge> 2"
      by (simp add: f b)
    ultimately show ?thesis by simp
  qed
qed

section \<open>Properties of the command lines and of a run\<close>

lemma append_metadata_map:
  "append_metadata items cmd = cmd @ map (\<lambda>(key, val). ''--metadata='' @ key @ ''='' @ val) items"
  by (induction items arbitrary: cmd) auto

lemma pandoc_command_shape:
  "pandoc_command nb =
     [''pandoc'', markdown_path nb, ''-o'', pdf_output_path nb] @
     map (\<lambda>(key, val). ''--metadata='' @ key @ ''='' @ val) metadata"
  by (simp add: pandoc_command_def append_metadata_map)

lemma pandoc_not_nbconvert: "pandoc_command nb \<noteq> nbconvert_command nb"
  by (simp add: pandoc_command_shape nbconvert_command_def)

lemma script_stage1_nonzero:
  assumes "sys (nbconvert_command nb) = Returned rc" and "rc \<noteq> 0"
  shows "script str_of sys nb =
           ([Run_called (nbconvert_command nb), Process_exited (nbconvert_command nb) rc,
             Printed (''Error during Markdown conversion: '' @
                      str_of (CalledProcessError rc (nbconvert_command nb)))],
            SystemExit 1)"
  using assms by (simp add: script_def subprocess_run_def)

lemma script_stage1_not_started:
  assumes "sys (nbconvert_command nb) = Failed_to_start"
  shows "script str_of sys nb = ([Run_called (nbconvert_command nb)], Uncaught OSError)"
  using assms by (simp add: script_def subprocess_run_def)

lemma script_stage2_nonzero:
  assumes "sys (nbconvert_command nb) = Returned 0"
    and "sys (pandoc_command nb) = Returned rc" and "rc \<noteq> 0"
  shows "script str_of sys nb =
           ([Run_called (nbconvert_command nb), Process_exited (nbconvert_command nb) 0,
             Printed (''Converted notebook to Markdown: '' @ markdown_path nb),
             Run_called (pandoc_command nb), Process_exited (pandoc_command nb) rc,
             Printed (''Error during PDF conversion: '' @
                      str_of (CalledProcessError rc (pandoc_command nb)))],
            Fell_through)"
  using assms by (simp add: script_def subprocess_run_def)

lemma script_stage2_not_started:
  assumes "sys (nbconvert_command nb) = Returned 0"
    and "sys (pandoc_command nb) = Failed_to_start"
  shows "script str_of sys nb =
           ([Run_called (nbconvert_command nb), Process_exited (nbconvert_command nb) 0,
             Printed (''Converted notebook to Markdown: '' @ markdown_path nb),
             Run_called (pandoc_command nb)],
            Uncaught OSError)"
  using assms by (simp add: script_def subprocess_run_def)

lemma script_success:
  assumes "sys (nbconvert_command nb) = Returned 0"
    and "sys (pandoc_command nb) = Returned 0"
  shows "script str_of sys nb =
           ([Run_called (nbconvert_command nb), Process_exited (nbconvert_command nb) 0,
             Printed (''Converted notebook to Markdown: '' @ markdown_path nb),
             Run_called (pandoc_command nb), Process_exited (pandoc_command nb) 0,
             Printed (''Successfully converted Markdown to PDF: '' @ pdf_output_path nb)],
            Fell_through)"
  using assms by (simp add: script_def subprocess_run_def)

lemma script_cases:
  obtains (md_failed) rc where "rc \<noteq> 0" "sys (nbconvert_command nb) = Returned rc"
  | (md_not_started) "sys (nbconvert_command nb) = Failed_to_start"
  | (pdf_failed) rc where "rc \<noteq> 0" "sys (nbconvert_command nb) = Returned 0"
      "sys (pandoc_command nb) = Returned rc"
  | (pdf_not_started) "sys (nbconvert_command nb) = Returned 0"
      "sys (pandoc_command nb) = Failed_to_start"
  | (success) "sys (nbconvert_command nb) = Returned 0" "sys (pandoc_command nb) = Returned 0"
proof (cases "sys (nbconvert_command nb)")
  case Failed_to_start
  then show ?thesis by (rule md_not_started)
next
  case r1: (Returned rc1)
  show ?thesis
  proof (cases "rc1 = 0")
    case False
    with r1 show ?thesis by (intro md_failed [of rc1]) simp_all
  next
    case True
    show ?thesis
    proof (cases "sys (pandoc_command nb)")
      case Failed_to_start
      with r1 True show ?thesis by (intro pdf_not_started) simp_all
    next
      case (Returned rc2)
      with r1 True show ?thesis
        by (cases "rc2 = 0") (auto intro: success pdf_failed)
    qed
  qed
qed

lemma calls_script:
  "calls (fst (script str_of sys nb)) =
     (if sys (nbconvert_command nb) = Returned 0
      then [nbconvert_command nb, pandoc_command nb] else [nbconvert_command nb])"
proof (cases sys nb rule: script_cases)
  case (md_failed rc)
  then show ?thesis
    using script_stage1_nonzero [where sys = sys and nb = nb and rc = rc and str_of = str_of]
    by simp
next
  case md_not_started
  then show ?thesis
    using script_stage1_not_started [where sys = sys and nb = nb and str_of = str_of] by simp
next
  case (pdf_failed rc)
  then show ?thesis
    using script_stage2_nonzero [where sys = sys and nb = nb and rc = rc and str_of = str_of]
    by simp
next
  case pdf_not_started
  then show ?thesis
    using script_stage2_not_started [where sys = sys and nb = nb and str_of = str_of] by simp
next
  case success
  then show ?thesis
    using script_success [where sys = sys and nb = nb and str_of = str_of] by simp
qed

lemma script_depends_on_two_results:
  assumes "sys (nbconvert_command nb) = sys' (nbconvert_command nb)"
    and "sys (pandoc_command nb) = sys' (pandoc_command nb)"
  shows "script str_of sys nb = script str_of sys' nb"
  using assms
  by (cases "sys' (nbconvert_command nb)"; cases "sys' (pandoc_command nb)")
    (simp_all add: script_def subprocess_run_def)

lemma script_renders_called_process_errors_only:
  assumes "\<And>rc cmd. str_of (CalledProcessError rc cmd) = str_of' (CalledProcessError rc cmd)"
  shows "script str_of sys nb = script str_of' sys nb"
  by (cases sys nb rule: script_cases)
    (simp_all add: script_def subprocess_run_def assms)

lemma finish_script:
  "snd (script str_of sys nb) =
     (case sys (nbconvert_command nb) of
        Failed_to_start \<Rightarrow> Uncaught OSError
      | Returned rc \<Rightarrow>
          if rc \<noteq> 0 then SystemExit 1
          else (case sys (pandoc_command nb) of
                  Failed_to_start \<Rightarrow> Uncaught OSError
                | Returned rc' \<Rightarrow> Fell_through))"
  by (cases sys nb rule: script_cases) (simp_all add: script_def subprocess_run_def)

section \<open>The claims\<close>

text \<open>
  Claim C1. When the notebook conversion of stage 1 returns a non-zero exit status, the
  script prints the error, ends through \<^verbatim>\<open>exit(1)\<close>, so with process exit code 1,
  and \<^verbatim>\<open>subprocess.run\<close> is never called for \<^verbatim>\<open>pandoc\<close>: the only call of the run
  is the one of stage 1.
\<close>

theorem stage1_failure_exits_1:
  assumes "sys (nbconvert_command nb) = Returned rc" and "rc \<noteq> 0"
  shows "script str_of sys nb =
           ([Run_called (nbconvert_command nb), Process_exited (nbconvert_command nb) rc,
             Printed (''Error during Markdown conversion: '' @
                      str_of (CalledProcessError rc (nbconvert_command nb)))],
            SystemExit 1)
         \<and> exit_code (snd (script str_of sys nb)) = 1
         \<and> calls (fst (script str_of sys nb)) = [nbconvert_command nb]
         \<and> pandoc_command nb \<notin> set (calls (fst (script str_of sys nb)))"
  using pandoc_not_nbconvert [of nb] assms
    script_stage1_nonzero [where sys = sys and nb = nb and rc = rc and str_of = str_of]
  by simp

theorem stage1_failure_exits_1_witness:
  "(\<lambda>cmd. Returned 2) (nbconvert_command notebook_path) = Returned 2 \<and> (2::int) \<noteq> 0
   \<and> exit_code (snd (script (\<lambda>e. ''error'') (\<lambda>cmd. Returned 2) notebook_path)) = 1
   \<and> calls (fst (script (\<lambda>e. ''error'') (\<lambda>cmd. Returned 2) notebook_path))
       = [nbconvert_command notebook_path]"
  using stage1_failure_exits_1 [where sys = "\<lambda>cmd. Returned 2" and nb = notebook_path
      and rc = 2 and str_of = "\<lambda>e. ''error''"]
  by simp

text \<open>
  Claim C2. When stage 1 returns 0 and the document conversion of stage 2 returns a
  non-zero exit status, the script prints the error and falls through to the end of
  the file: the process exit code is 0.
\<close>

theorem stage2_failure_exits_0:
  assumes "sys (nbconvert_command nb) = Returned 0"
    and "sys (pandoc_command nb) = Returned rc" and "rc \<noteq> 0"
  shows "script str_of sys nb =
           ([Run_called (nbconvert_command nb), Process_exited (nbconvert_command nb) 0,
             Printed (''Converted notebook to Markdown: '' @ markdown_path nb),
             Run_called (pandoc_command nb), Process_exited (pandoc_command nb) rc,
             Printed (''Error during PDF conversion: '' @
                      str_of (CalledProcessError rc (pandoc_command nb)))],
            Fell_through)
         \<and> exit_code (snd (script str_of sys nb)) = 0"
  using assms
    script_stage2_nonzero [where sys = sys and nb = nb and rc = rc and str_of = str_of]
  by simp

theorem stage2_failure_exits_0_witness:
  "pandoc_fails (nbconvert_command notebook_path) = Returned 0
   \<and> pandoc_fails (pandoc_command notebook_path) = Returned 43 \<and> (43::int) \<noteq> 0
   \<and> snd (script (\<lambda>e. ''error'') pandoc_fails notebook_path) = Fell_through
   \<and> exit_code (snd (script (\<lambda>e. ''error'') pandoc_fails notebook_path)) = 0"
proof -
  have a: "pandoc_fails (nbconvert_command notebook_path) = Returned 0"
    by (simp add: pandoc_fails_def nbconvert_command_def)
  have b: "pandoc_fails (pandoc_command notebook_path) = Returned 43"
    by (simp add: pandoc_fails_def pandoc_command_shape)
  have c: "(43::int) \<noteq> 0" by simp
  show ?thesis
    using stage2_failure_exits_0 [where sys = pandoc_fails and nb = notebook_path
        and rc = 43 and str_of = "\<lambda>e. ''error''"] a b c
    by simp
qed

text \<open>
  Claim C3. The argument vector of stage 2 is \<^verbatim>\<open>pandoc\<close>, the markdown path,
  \<^verbatim>\<open>-o\<close> and the PDF path, followed by one argument \<^verbatim>\<open>--metadata=key=value\<close> for
  each entry of the metadata table, in the order of the table, the key and the value
  copied unchanged; the table has the nine keys title, author, date, abstract,
  subtitle, keywords, thanks, email and institute.
\<close>

theorem pandoc_metadata_arguments:
  "pandoc_command nb =
     [''pandoc'', markdown_path nb, ''-o'', pdf_output_path nb] @
     map (\<lambda>(key, val). ''--metadata='' @ key @ ''='' @ val) metadata
   \<and> map fst metadata =
       [''title'', ''author'', ''date'', ''abstract'', ''subtitle'', ''keywords'',
        ''thanks'', ''email'', ''institute'']
   \<and> length (pandoc_command nb) = 4 + 9
   \<and> pandoc_command nb ! 4 = ''--metadata=title=Autoyos: Eye Blink Data Analysis''
   \<and> pandoc_command nb ! 5 = ''--metadata=author=Karthik Dani: 1BM22MD022''
   \<and> pandoc_command nb ! 10 = ''--metadata=thanks=*''"
  by (simp add: pandoc_command_shape) (simp add: metadata_def)

text \<open>
  Claim C4. The markdown path and the PDF path lie in the directory of the notebook
  (\<^const>\<open>dirname\<close> of each is \<^const>\<open>dirname\<close> of the notebook path) and their file
  names are the base file name followed by \<^verbatim>\<open>.md\<close> and \<^verbatim>\<open>.pdf\<close>; for the
  notebook \<^verbatim>\<open>/x/y/notebook.ipynb\<close> they are \<^verbatim>\<open>/x/y/notebook.md\<close> and
  \<^verbatim>\<open>/x/y/notebook.pdf\<close>.
\<close>

theorem derived_paths_beside_notebook:
  "dirname (markdown_path nb) = dirname nb
   \<and> basename (markdown_path nb) = base_filename nb @ ''.md''
   \<and> dirname (pdf_output_path nb) = dirname nb
   \<and> basename (pdf_output_path nb) = base_filename nb @ ''.pdf''
   \<and> markdown_path ''/x/y/notebook.ipynb'' = ''/x/y/notebook.md''
   \<and> pdf_output_path ''/x/y/notebook.ipynb'' = ''/x/y/notebook.pdf''"
  by (simp add: dirname_markdown_path basename_markdown_path dirname_pdf_output_path
      basename_pdf_output_path example_paths)

text \<open>
  Claim C5, as stated, fails: for the notebook \<^verbatim>\<open>/x/a.b.ipynb\<close> the base file name
  of the script is \<^verbatim>\<open>a\<close>, while the file name without its final extension is
  \<^verbatim>\<open>a.b\<close>.
\<close>

theorem base_filename_not_last_dot_counterexample:
  "base_filename ''/x/a.b.ipynb'' \<noteq> spec_strip_extension (basename ''/x/a.b.ipynb'')"
  by (simp add: path_eval spec_strip_extension_def)

text \<open>
  Claim C5, amended. For every notebook path whose file name holds at most one dot,
  the base file name is the file name with its final extension stripped. For every
  notebook path, both derived file names are built from the same base file name, and
  for two notebooks of one directory the derived paths stay in one directory and the
  markdown file names agree exactly when the PDF file names do.
\<close>

theorem base_filename_single_extension:
  "(count_list (basename nb) CHR ''.'' \<le> 1 \<longrightarrow>
      base_filename nb = spec_strip_extension (basename nb))
   \<and> basename (markdown_path nb) = base_filename nb @ ''.md''
   \<and> basename (pdf_output_path nb) = base_filename nb @ ''.pdf''
   \<and> (dirname nb' = dirname nb \<longrightarrow>
        dirname (markdown_path nb') = dirname (markdown_path nb)
        \<and> dirname (pdf_output_path nb') = dirname (pdf_output_path nb)
        \<and> (basename (markdown_path nb') = basename (markdown_path nb))
            = (basename (pdf_output_path nb') = basename (pdf_output_path nb)))"
  using strip_single_dot [of "basename nb"]
  by (simp add: base_filename_takeWhile [symmetric] dirname_markdown_path
      basename_markdown_path dirname_pdf_output_path basename_pdf_output_path)

theorem base_filename_single_extension_witness:
  "count_list (basename ''/x/y/notebook.ipynb'') CHR ''.'' \<le> 1
   \<and> base_filename ''/x/y/notebook.ipynb'' = ''notebook''
   \<and> spec_strip_extension (basename ''/x/y/notebook.ipynb'') = ''notebook''
   \<and> dirname ''/x/y/report.ipynb'' = dirname ''/x/y/notebook.ipynb''
   \<and> basename (markdown_path ''/x/y/report.ipynb'') \<noteq> basename (markdown_path ''/x/y/notebook.ipynb'')
   \<and> basename (pdf_output_path ''/x/y/report.ipynb'') \<noteq> basename (pdf_output_path ''/x/y/notebook.ipynb'')"
  using base_filename_single_extension [of "''/x/y/notebook.ipynb''" "''/x/y/report.ipynb''"]
  by (simp add: path_eval spec_strip_extension_def)

text \<open>
  Claim C6. The argument vector of stage 1 is \<^verbatim>\<open>jupyter\<close>, \<^verbatim>\<open>nbconvert\<close>,
  \<^verbatim>\<open>--to\<close>, \<^verbatim>\<open>markdown\<close>, \<^verbatim>\<open>--TagRemovePreprocessor.enabled=True\<close>, then the
  flag \<^verbatim>\<open>--TagRemovePreprocessor.remove_cell_tags=\<close> whose value is a double-quote
  character followed by \<^verbatim>\<open>exclude-output\<close>, then the notebook path as an argument
  of its own. The double quote is the only one of its argument (it is never closed),
  and this vector is the first call of \<^verbatim>\<open>subprocess.run\<close> in every run.
\<close>

theorem nbconvert_arguments:
  "nbconvert_command nb =
     [''jupyter'', ''nbconvert'', ''--to'', ''markdown'',
      ''--TagRemovePreprocessor.enabled=True'',
      ''--TagRemovePreprocessor.remove_cell_tags='' @ CHR 0x22 # ''exclude-output'',
      nb]
   \<and> count_list (nbconvert_command nb ! 5) (CHR 0x22) = 1
   \<and> last (nbconvert_command nb) = nb
   \<and> hd (calls (fst (script str_of sys nb))) = nbconvert_command nb"
proof -
  have "hd (calls (fst (script str_of sys nb))) = nbconvert_command nb"
    by (cases "sys (nbconvert_command nb)"; cases "sys (pandoc_command nb)")
       (simp_all add: script_def subprocess_run_def)
  then show ?thesis by (simp add: nbconvert_command_def)
qed

text \<open>
  Claim C7. Whenever \<^verbatim>\<open>subprocess.run\<close> is called for \<^verbatim>\<open>pandoc\<close> in a run, stage 1
  returned exit status 0 and the run begins with the call for \<^verbatim>\<open>nbconvert\<close>, the exit
  of that child with status 0 and the success message, and only then the call for
  \<^verbatim>\<open>pandoc\<close>, which occurs once; no call for \<^verbatim>\<open>nbconvert\<close> follows it.
\<close>

theorem pandoc_only_after_nbconvert_succeeded:
  assumes "Run_called (pandoc_command nb) \<in> set (fst (script str_of sys nb))"
  shows "sys (nbconvert_command nb) = Returned 0
    \<and> (\<exists>rest. fst (script str_of sys nb) =
          [Run_called (nbconvert_command nb),
           Process_exited (nbconvert_command nb) 0,
           Printed (''Converted notebook to Markdown: '' @ markdown_path nb),
           Run_called (pandoc_command nb)] @ rest
        \<and> Run_called (pandoc_command nb) \<notin> set rest
        \<and> Run_called (nbconvert_command nb) \<notin> set rest)"
proof (cases sys nb rule: script_cases)
  case (md_failed rc)
  then show ?thesis
    using assms pandoc_not_nbconvert [of nb]
      script_stage1_nonzero [where sys = sys and nb = nb and rc = rc and str_of = str_of]
    by simp
next
  case md_not_started
  then show ?thesis
    using assms pandoc_not_nbconvert [of nb]
      script_stage1_not_started [where sys = sys and nb = nb and str_of = str_of] by simp
next
  case (pdf_failed rc)
  then show ?thesis
    using script_stage2_nonzero [where sys = sys and nb = nb and rc = rc and str_of = str_of]
    by simp
next
  case pdf_not_started
  then show ?thesis
    using script_stage2_not_started [where sys = sys and nb = nb and str_of = str_of] by simp
next
  case success
  then show ?thesis
    using script_success [where sys = sys and nb = nb and str_of = str_of] by simp
qed

theorem pandoc_only_after_nbconvert_succeeded_witness:
  "Run_called (pandoc_command notebook_path)
     \<in> set (fst (script (\<lambda>e. ''error'') all_succeed notebook_path))
   \<and> all_succeed (nbconvert_command notebook_path) = Returned 0
   \<and> take 4 (fst (script (\<lambda>e. ''error'') all_succeed notebook_path)) =
       [Run_called (nbconvert_command notebook_path),
        Process_exited (nbconvert_command notebook_path) 0,
        Printed (''Converted notebook to Markdown: '' @ markdown_path notebook_path),
        Run_called (pandoc_command notebook_path)]"
proof -
  have s: "script (\<lambda>e. ''error'') all_succeed notebook_path =
    ([Run_called (nbconvert_command notebook_path),
      Process_exited (nbconvert_command notebook_path) 0,
      Printed (''Converted notebook to Markdown: '' @ markdown_path notebook_path),
      Run_called (pandoc_command notebook_path),
      Process_exited (pandoc_command notebook_path) 0,
      Printed (''Successfully converted Markdown to PDF: '' @ pdf_output_path notebook_path)],
     Fell_through)"
    by (rule script_success) (simp_all add: all_succeed_def)
  have m: "Run_called (pandoc_command notebook_path)
     \<in> set (fst (script (\<lambda>e. ''error'') all_succeed notebook_path))"
    by (simp add: s)
  from pandoc_only_after_nbconvert_succeeded [OF m] m show ?thesis
    by (simp add: s)
qed

text \<open>
  Claim C8. The handlers of the script catch \<^verbatim>\<open>CalledProcessError\<close> only. When a
  program cannot be started, nothing is printed for it and the script ends with the
  uncaught exception; the script ends uncaught exactly in those cases, and through
  \<^verbatim>\<open>exit(1)\<close> exactly when stage 1 returned a non-zero status. The text of an
  exception is asked for a \<^verbatim>\<open>CalledProcessError\<close> only, and a run depends on its
  environment through the results of the two calls alone: nothing else is checked.
\<close>

theorem only_called_process_error_is_handled:
  "(sys (nbconvert_command nb) = Failed_to_start \<longrightarrow>
      script str_of sys nb = ([Run_called (nbconvert_command nb)], Uncaught OSError))
   \<and> (sys (nbconvert_command nb) = Returned 0 \<and> sys (pandoc_command nb) = Failed_to_start \<longrightarrow>
      script str_of sys nb =
        ([Run_called (nbconvert_command nb), Process_exited (nbconvert_command nb) 0,
          Printed (''Converted notebook to Markdown: '' @ markdown_path nb),
          Run_called (pandoc_command nb)],
         Uncaught OSError))
   \<and> (snd (script str_of sys nb) = Uncaught OSError) =
       (sys (nbconvert_command nb) = Failed_to_start
        \<or> sys (nbconvert_command nb) = Returned 0 \<and> sys (pandoc_command nb) = Failed_to_start)
   \<and> (snd (script str_of sys nb) = SystemExit 1) =
       (\<exists>rc. rc \<noteq> 0 \<and> sys (nbconvert_command nb) = Returned rc)
   \<and> ((\<forall>rc cmd. str_of (CalledProcessError rc cmd) = str_of' (CalledProcessError rc cmd)) \<longrightarrow>
        script str_of sys nb = script str_of' sys nb)
   \<and> (sys (nbconvert_command nb) = sys' (nbconvert_command nb)
        \<and> sys (pandoc_command nb) = sys' (pandoc_command nb) \<longrightarrow>
        script str_of sys nb = script str_of sys' nb)"
proof -
  have u: "(snd (script str_of sys nb) = Uncaught OSError) =
       (sys (nbconvert_command nb) = Failed_to_start
        \<or> sys (nbconvert_command nb) = Returned 0 \<and> sys (pandoc_command nb) = Failed_to_start)"
    by (cases sys nb rule: script_cases) (simp_all add: finish_script)
  have e: "(snd (script str_of sys nb) = SystemExit 1) =
       (\<exists>rc. rc \<noteq> 0 \<and> sys (nbconvert_command nb) = Returned rc)"
    by (cases sys nb rule: script_cases) (simp_all add: finish_script)
  show ?thesis
    using u e script_stage1_not_started [where sys = sys and nb = nb and str_of = str_of]
      script_stage2_not_started [where sys = sys and nb = nb and str_of = str_of]
      script_renders_called_process_errors_only [where str_of = str_of and str_of' = str_of'
        and sys = sys and nb = nb]
      script_depends_on_two_results [where sys = sys and sys' = sys' and nb = nb
        and str_of = str_of]
    by blast
qed

theorem only_called_process_error_is_handled_witness:
  "nothing_starts (nbconvert_command notebook_path) = Failed_to_start
   \<and> script (\<lambda>e. ''error'') nothing_starts notebook_path =
       ([Run_called (nbconvert_command notebook_path)], Uncaught OSError)
   \<and> pandoc_missing (nbconvert_command notebook_path) = Returned 0
   \<and> pandoc_missing (pandoc_command notebook_path) = Failed_to_start
   \<and> script (\<lambda>e. ''error'') pandoc_missing notebook_path =
       ([Run_called (nbconvert_command notebook_path),
         Process_exited (nbconvert_command notebook_path) 0,
         Printed (''Converted notebook to Markdown: '' @ markdown_path notebook_path),
         Run_called (pandoc_command notebook_path)],
        Uncaught OSError)
   \<and> script (\<lambda>e. ''error'') nothing_starts notebook_path =
       script (\<lambda>e. case e of CalledProcessError rc cmd \<Rightarrow> ''error'' | OSError \<Rightarrow> ''other'')
         nothing_starts notebook_path"
proof -
  have a: "nothing_starts (nbconvert_command notebook_path) = Failed_to_start"
    by (simp add: nothing_starts_def)
  have b: "pandoc_missing (nbconvert_command notebook_path) = Returned 0"
    by (simp add: pandoc_missing_def nbconvert_command_def)
  have c: "pandoc_missing (pandoc_command notebook_path) = Failed_to_start"
    by (simp add: pandoc_missing_def pandoc_command_shape)
  note t1 = only_called_process_error_is_handled [where sys = nothing_starts
      and nb = notebook_path and str_of = "\<lambda>e. ''error''" and sys' = nothing_starts
      and str_of' = "\<lambda>e. case e of CalledProcessError rc cmd \<Rightarrow> ''error'' | OSError \<Rightarrow> ''other''"]
  note t2 = only_called_process_error_is_handled [where sys = pandoc_missing
      and nb = notebook_path and str_of = "\<lambda>e. ''error''" and sys' = pandoc_missing
      and str_of' = "\<lambda>e. ''error''"]
  have x1: "script (\<lambda>e. ''error'') nothing_starts notebook_path =
       ([Run_called (nbconvert_command notebook_path)], Uncaught OSError)"
    using t1 a by blast
  have x2: "script (\<lambda>e. ''error'') pandoc_missing notebook_path =
       ([Run_called (nbconvert_command notebook_path),
         Process_exited (nbconvert_command notebook_path) 0,
         Printed (''Converted notebook to Markdown: '' @ markdown_path notebook_path),
         Run_called (pandoc_command notebook_path)],
        Uncaught OSError)"
    using t2 b c by blast
  have h: "\<forall>rc cmd. (\<lambda>e. ''error'') (CalledProcessError rc cmd) =
      (\<lambda>e. case e of CalledProcessError rc cmd \<Rightarrow> ''error'' | OSError \<Rightarrow> ''other'')
        (CalledProcessError rc cmd)"
    by simp
  have x3: "script (\<lambda>e. ''error'') nothing_starts notebook_path =
       script (\<lambda>e. case e of CalledProcessError rc cmd \<Rightarrow> ''error'' | OSError \<Rightarrow> ''other'')
         nothing_starts notebook_path"
    using t1 h by blast
  from a x1 b c x2 x3 show ?thesis by (intro conjI)
qed

text \<open>
  Claim C9. The base file name is the part of the notebook's file name before its
  first dot, and both derived paths are built from it: for \<^verbatim>\<open>/x/a.b.ipynb\<close> they
  are \<^verbatim>\<open>/x/a.md\<close> and \<^verbatim>\<open>/x/a.pdf\<close>. When the file name begins with a dot, the
  base file name is empty and the derived paths are the directory joined with
  \<^verbatim>\<open>.md\<close> and \<^verbatim>\<open>.pdf\<close>.
\<close>

theorem base_filename_first_dot:
  "base_filename nb = takeWhile (\<lambda>c. c \<noteq> CHR ''.'') (basename nb)
   \<and> markdown_path nb =
       join (dirname nb) (takeWhile (\<lambda>c. c \<noteq> CHR ''.'') (basename nb) @ ''.md'')
   \<and> pdf_output_path nb =
       join (dirname nb) (takeWhile (\<lambda>c. c \<noteq> CHR ''.'') (basename nb) @ ''.pdf'')
   \<and> base_filename ''/x/a.b.ipynb'' = ''a''
   \<and> markdown_path ''/x/a.b.ipynb'' = ''/x/a.md''
   \<and> pdf_output_path ''/x/a.b.ipynb'' = ''/x/a.pdf''
   \<and> (startswith CHR ''.'' (basename nb) \<longrightarrow>
        base_filename nb = []
        \<and> markdown_path nb = join (dirname nb) ''.md''
        \<and> pdf_output_path nb = join (dirname nb) ''.pdf'')"
proof -
  have ex: "base_filename ''/x/a.b.ipynb'' = ''a''"
    "markdown_path ''/x/a.b.ipynb'' = ''/x/a.md''"
    "pdf_output_path ''/x/a.b.ipynb'' = ''/x/a.pdf''"
    by (simp_all add: path_eval)
  have dot: "base_filename nb = []" if "startswith CHR ''.'' (basename nb)"
    using that by (cases "basename nb") (simp_all add: base_filename_takeWhile startswith_def)
  have gen: "markdown_path nb =
       join (dirname nb) (takeWhile (\<lambda>c. c \<noteq> CHR ''.'') (basename nb) @ ''.md'')"
    "pdf_output_path nb =
       join (dirname nb) (takeWhile (\<lambda>c. c \<noteq> CHR ''.'') (basename nb) @ ''.pdf'')"
    by (simp_all add: markdown_path_def pdf_output_path_def base_filename_takeWhile)
  have hid: "startswith CHR ''.'' (basename nb) \<longrightarrow>
        base_filename nb = []
        \<and> markdown_path nb = join (dirname nb) ''.md''
        \<and> pdf_output_path nb = join (dirname nb) ''.pdf''"
    using dot by (simp add: markdown_path_def pdf_output_path_def)
  from base_filename_takeWhile [of nb] gen ex hid show ?thesis
    by (intro conjI)
qed

theorem base_filename_first_dot_witness:
  "startswith CHR ''.'' (basename ''/x/.ipynb'')
   \<and> base_filename ''/x/.ipynb'' = []
   \<and> markdown_path ''/x/.ipynb'' = ''/x/.md''
   \<and> pdf_output_path ''/x/.ipynb'' = ''/x/.pdf''"
  using base_filename_first_dot [of "''/x/.ipynb''"]
  by (simp add: path_eval)

text \<open>
  Claim C10. The argument vectors a run passes to \<^verbatim>\<open>subprocess.run\<close> are, in order,
  those of \<^const>\<open>nbconvert_command\<close> and \<^const>\<open>pandoc_command\<close>, whatever the
  environment answers: of two runs on the same notebook path, the calls of one are an
  initial part of the calls of the other. For the notebook path of the script, the
  two derived paths and the two argument vectors are the strings listed.
\<close>

theorem commands_and_paths_are_fixed:
  "prefix (calls (fst (script str_of sys nb))) [nbconvert_command nb, pandoc_command nb]
   \<and> (prefix (calls (fst (script str_of sys nb))) (calls (fst (script str_of' sys' nb)))
       \<or> prefix (calls (fst (script str_of' sys' nb))) (calls (fst (script str_of sys nb))))
   \<and> markdown_path notebook_path =
       ''/Users/karthik/Desktop/Autoyos/data_analyst_assignment/autoyos_eye_blink_analysis_karthik_dani.md''
   \<and> pdf_output_path notebook_path =
       ''/Users/karthik/Desktop/Autoyos/data_analyst_assignment/autoyos_eye_blink_analysis_karthik_dani.pdf''
   \<and> nbconvert_command notebook_path =
       [''jupyter'', ''nbconvert'', ''--to'', ''markdown'',
        ''--TagRemovePreprocessor.enabled=True'',
        ''--TagRemovePreprocessor.remove_cell_tags='' @ CHR 0x22 # ''exclude-output'',
        ''/Users/karthik/Desktop/Autoyos/data_analyst_assignment/autoyos_eye_blink_analysis_karthik_dani.ipynb'']
   \<and> pandoc_command notebook_path =
       [''pandoc'',
        ''/Users/karthik/Desktop/Autoyos/data_analyst_assignment/autoyos_eye_blink_analysis_karthik_dani.md'',
        ''-o'',
        ''/Users/karthik/Desktop/Autoyos/data_analyst_assignment/autoyos_eye_blink_analysis_karthik_dani.pdf'',
        ''--metadata=title=Autoyos: Eye Blink Data Analysis'',
        ''--metadata=author=Karthik Dani: 1BM22MD022'',
        ''--metadata=date=2024-06-26'',
        ''--metadata=abstract=This study investigates blinking behavior using longitudinal data analysis techniques. By analyzing blink durations, interblink intervals, and blink rates over multiple months, we uncover nuanced patterns and variations. Statistical analysis and visualizations reveal trends in blinking habits, shedding light on potential factors influencing these behaviors. This exploration offers valuable insights into the dynamics of blinking patterns.'',
        ''--metadata=subtitle=Statistically Understanding Blinking Behavior across April, May and June'',
        ''--metadata=keywords=Data analysis'',
        ''--metadata=thanks=*'',
        ''--metadata=email=karthikdani14@gmail.com'',
        ''--metadata=institute=BMS College of Engineering, Bangalore'']"
proof -
  have p: "prefix (calls (fst (script str_of sys nb))) [nbconvert_command nb, pandoc_command nb]"
    by (simp add: calls_script)
  have q: "prefix (calls (fst (script str_of sys nb))) (calls (fst (script str_of' sys' nb)))
       \<or> prefix (calls (fst (script str_of' sys' nb))) (calls (fst (script str_of sys nb)))"
    by (simp add: calls_script)
  have n: "nbconvert_command notebook_path =
       [''jupyter'', ''nbconvert'', ''--to'', ''markdown'',
        ''--TagRemovePreprocessor.enabled=True'',
        ''--TagRemovePreprocessor.remove_cell_tags='' @ CHR 0x22 # ''exclude-output'',
        ''/Users/karthik/Desktop/Autoyos/data_analyst_assignment/autoyos_eye_blink_analysis_karthik_dani.ipynb'']"
    by (simp add: nbconvert_command_def notebook_path_def)
  have d: "pandoc_command notebook_path =
       [''pandoc'',
        ''/Users/karthik/Desktop/Autoyos/data_analyst_assignment/autoyos_eye_blink_analysis_karthik_dani.md'',
        ''-o'',
        ''/Users/karthik/Desktop/Autoyos/data_analyst_assignment/autoyos_eye_blink_analysis_karthik_dani.pdf'',
        ''--metadata=title=Autoyos: Eye Blink Data Analysis'',
        ''--metadata=author=Karthik Dani: 1BM22MD022'',
        ''--metadata=date=2024-06-26'',
        ''--metadata=abstract=This study investigates blinking behavior using longitudinal data analysis techniques. By analyzing blink durations, interblink intervals, and blink rates over multiple months, we uncover nuanced patterns and variations. Statistical analysis and visualizations reveal trends in blinking habits, shedding light on potential factors influencing these behaviors. This exploration offers valuable insights into the dynamics of blinking patterns.'',
        ''--metadata=subtitle=Statistically Understanding Blinking Behavior across April, May and June'',
        ''--metadata=keywords=Data analysis'',
        ''--metadata=thanks=*'',
        ''--metadata=email=karthikdani14@gmail.com'',
        ''--metadata=institute=BMS College of Engineering, Bangalore'']"
    by (simp add: pandoc_command_shape notebook_paths) (simp add: metadata_def)
  from p q notebook_paths n d show ?thesis by (intro conjI)
qed

end
